theory Spec2Isabelle
  imports Complex_Main
begin

section \<open>The Swiss Ephemeris adapter of flatlib (flatlib/ephem/swe.py)\<close>

text \<open>
  The module translates domain symbols into engine codes, calls one routine of the
  external engine (pyswisseph) and reshapes the tuple that comes back. Python floats
  are modelled as \<^typ>\<open>real\<close> (exact arithmetic, no rounding), Python ints as
  \<^typ>\<open>int\<close>, tuples and lists as HOL lists with the IndexError of an out-of-range
  read written out, dictionaries with a fixed key set as records, and the two lookup
  tables as maps, so that a missing key is \<open>None\<close> and becomes a KeyError.
\<close>

subsection \<open>Errors\<close>

datatype error =
    KeyError string
  | IndexError
  | EngineError string

subsection \<open>flatlib.const\<close>

text \<open>
  The module \<open>flatlib.const\<close> is not among the sources; the constants that swe.py reads
  from it are the fields of this record, a parameter of every definition that uses one.
\<close>

record const =
  SUN :: string
  MOON :: string
  MERCURY :: string
  VENUS :: string
  MARS :: string
  JUPITER :: string
  SATURN :: string
  URANUS :: string
  NEPTUNE :: string
  PLUTO :: string
  CHIRON :: string
  NORTH_NODE :: string
  PHOLUS :: string
  CERES :: string
  PALLAS :: string
  JUNO :: string
  VESTA :: string
  HOUSES_PLACIDUS :: string
  HOUSES_KOCH :: string
  HOUSES_PORPHYRIUS :: string
  HOUSES_REGIOMONTANUS :: string
  HOUSES_CAMPANUS :: string
  HOUSES_EQUAL :: string
  HOUSES_EQUAL_2 :: string
  HOUSES_VEHLOW_EQUAL :: string
  HOUSES_WHOLE_SIGN :: string
  HOUSES_MERIDIAN :: string
  HOUSES_AZIMUTHAL :: string
  HOUSES_POLICH_PAGE :: string
  HOUSES_ALCABITUS :: string
  HOUSES_MORINUS :: string
  LIST_HOUSES :: "string list"
  ASC :: string
  MC :: string
  DESC :: string
  IC :: string
  SE_PATH :: string

subsection \<open>flatlib.angle\<close>

text \<open>
  Modelled from the spec: the helper \<open>angle.norm\<close> of the module \<open>flatlib.angle\<close>,
  which is not among the sources. The spec describes it as the angle-normalization
  helper that "maps any real degree value into [0,360)": the value congruent to the
  argument modulo 360 in that interval.
\<close>

definition norm_angle :: "real \<Rightarrow> real" where
  "norm_angle a = a - 360 * of_int \<lfloor>a / 360\<rfloor>"

text \<open>
  Modelled from the spec: the helper \<open>angle.distance\<close> of the module \<open>flatlib.angle\<close>,
  which is not among the sources. The spec describes it as the "forward angular
  distance" from the first angle to the second, "the shortest non-negative forward
  difference modulo 360 (not raw subtraction)".
\<close>

definition distance :: "real \<Rightarrow> real \<Rightarrow> real" where
  "distance angle1 angle2 = norm_angle (angle2 - angle1)"

subsection \<open>The engine\<close>

text \<open>
  Every call into \<open>swisseph\<close> is an event; the state of the process is the list of
  the events so far, oldest first. It holds the ephemeris path the engine was last
  given.
\<close>

datatype call =
    Set_ephe_path string
  | Calc_ut real int int
  | Rise_trans real int real real real real real int
  | Houses_ex real real real char int
  | Fixstar2_ut string real int
  | Fixstar2_mag string
  | Sol_eclipse_when_glob real bool
  | Lun_eclipse_when real bool

text \<open>
  The engine is external: its routines are parameters. Each takes the events that
  came before it and its arguments, and either raises or returns its tuple.
  \<open>CALC_RISE\<close> and \<open>CALC_SET\<close> are the engine's two mode constants.
\<close>

record engine =
  calc_ut :: "call list \<Rightarrow> real \<Rightarrow> int \<Rightarrow> int \<Rightarrow> error + (real list \<times> int)"
  rise_trans :: "call list \<Rightarrow> real \<Rightarrow> int \<Rightarrow> real \<Rightarrow> real \<Rightarrow> real \<Rightarrow> real \<Rightarrow> real \<Rightarrow> int
                  \<Rightarrow> error + (int \<times> real list)"
  houses_ex :: "call list \<Rightarrow> real \<Rightarrow> real \<Rightarrow> real \<Rightarrow> char \<Rightarrow> int
                  \<Rightarrow> error + (real list \<times> real list)"
  fixstar2_ut :: "call list \<Rightarrow> string \<Rightarrow> real \<Rightarrow> int \<Rightarrow> error + (real list \<times> string \<times> int)"
  fixstar2_mag :: "call list \<Rightarrow> string \<Rightarrow> error + real"
  sol_eclipse_when_glob :: "call list \<Rightarrow> real \<Rightarrow> bool \<Rightarrow> error + (int \<times> real list)"
  lun_eclipse_when :: "call list \<Rightarrow> real \<Rightarrow> bool \<Rightarrow> error + (int \<times> real list)"
  CALC_RISE :: int
  CALC_SET :: int

subsection \<open>The lookup tables\<close>

text \<open>A dictionary display: a key written twice keeps its last value, as a map update does.\<close>

definition SWE_OBJECTS :: "const \<Rightarrow> string \<rightharpoonup> int" where
  "SWE_OBJECTS c = Map.empty
     (SUN c \<mapsto> 0, MOON c \<mapsto> 1, MERCURY c \<mapsto> 2, VENUS c \<mapsto> 3, MARS c \<mapsto> 4,
      JUPITER c \<mapsto> 5, SATURN c \<mapsto> 6, URANUS c \<mapsto> 7, NEPTUNE c \<mapsto> 8, PLUTO c \<mapsto> 9,
      CHIRON c \<mapsto> 15, NORTH_NODE c \<mapsto> 10, PHOLUS c \<mapsto> 16, CERES c \<mapsto> 17,
      PALLAS c \<mapsto> 18, JUNO c \<mapsto> 19, VESTA c \<mapsto> 20)"

definition SWE_HOUSESYS :: "const \<Rightarrow> string \<rightharpoonup> char" where
  "SWE_HOUSESYS c = Map.empty
     (HOUSES_PLACIDUS c \<mapsto> CHR ''P'', HOUSES_KOCH c \<mapsto> CHR ''K'',
      HOUSES_PORPHYRIUS c \<mapsto> CHR ''O'', HOUSES_REGIOMONTANUS c \<mapsto> CHR ''R'',
      HOUSES_CAMPANUS c \<mapsto> CHR ''C'', HOUSES_EQUAL c \<mapsto> CHR ''A'',
      HOUSES_EQUAL_2 c \<mapsto> CHR ''E'', HOUSES_VEHLOW_EQUAL c \<mapsto> CHR ''V'',
      HOUSES_WHOLE_SIGN c \<mapsto> CHR ''W'', HOUSES_MERIDIAN c \<mapsto> CHR ''X'',
      HOUSES_AZIMUTHAL c \<mapsto> CHR ''H'', HOUSES_POLICH_PAGE c \<mapsto> CHR ''T'',
      HOUSES_ALCABITUS c \<mapsto> CHR ''B'', HOUSES_MORINUS c \<mapsto> CHR ''M'')"

subsection \<open>Internal functions\<close>

definition setPath :: "string \<Rightarrow> call list \<Rightarrow> call list" where
  "setPath path tr = tr @ [Set_ephe_path path]"

subsection \<open>Object functions\<close>

record object_record =
  obj_id :: string
  obj_lon :: real
  obj_lat :: real
  obj_lonspeed :: real
  obj_latspeed :: real
  obj_flg :: int

text \<open>
  The table lookup comes first and raises before anything else happens; then the
  path is set; then the engine is called. The record reads elements 0, 1, 3 and 4 of
  the tuple, so a tuple of fewer than five elements raises IndexError.
\<close>

definition sweObject ::
  "const \<Rightarrow> engine \<Rightarrow> string \<Rightarrow> real \<Rightarrow> int \<Rightarrow> call list \<Rightarrow> (error + object_record) \<times> call list"
where
  "sweObject c e obj jd flags tr =
     (case SWE_OBJECTS c obj of
        None \<Rightarrow> (Inl (KeyError obj), tr)
      | Some sweObj \<Rightarrow>
          (let tr1 = setPath (SE_PATH c) tr;
               tr2 = tr1 @ [Calc_ut jd sweObj flags]
           in case calc_ut e tr1 jd sweObj flags of
                Inl err \<Rightarrow> (Inl err, tr2)
              | Inr (sweList, flg) \<Rightarrow>
                  if length sweList \<le> 4 then (Inl IndexError, tr2)
                  else (Inr \<lparr>obj_id = obj, obj_lon = sweList ! 0, obj_lat = sweList ! 1,
                             obj_lonspeed = sweList ! 3, obj_latspeed = sweList ! 4,
                             obj_flg = flg\<rparr>, tr2)))"

definition sweObjectLon ::
  "const \<Rightarrow> engine \<Rightarrow> string \<Rightarrow> real \<Rightarrow> int \<Rightarrow> call list \<Rightarrow> (error + real) \<times> call list"
where
  "sweObjectLon c e obj jd flags tr =
     (case SWE_OBJECTS c obj of
        None \<Rightarrow> (Inl (KeyError obj), tr)
      | Some sweObj \<Rightarrow>
          (let tr1 = tr @ [Calc_ut jd sweObj flags]
           in case calc_ut e tr jd sweObj flags of
                Inl err \<Rightarrow> (Inl err, tr1)
              | Inr (sweList, flg) \<Rightarrow>
                  if length sweList = 0 then (Inl IndexError, tr1)
                  else (Inr (sweList ! 0), tr1)))"

definition sweNextTransit ::
  "const \<Rightarrow> engine \<Rightarrow> string \<Rightarrow> real \<Rightarrow> real \<Rightarrow> real \<Rightarrow> string \<Rightarrow> call list
     \<Rightarrow> (error + real) \<times> call list"
where
  "sweNextTransit c e obj jd lat lon flag tr =
     (case SWE_OBJECTS c obj of
        None \<Rightarrow> (Inl (KeyError obj), tr)
      | Some sweObj \<Rightarrow>
          (let flag' = (if flag = ''RISE'' then CALC_RISE e else CALC_SET e);
               tr1 = tr @ [Rise_trans jd sweObj lon lat 0 0 0 flag']
           in case rise_trans e tr jd sweObj lon lat 0 0 0 flag' of
                Inl err \<Rightarrow> (Inl err, tr1)
              | Inr (res, tret) \<Rightarrow>
                  if length tret = 0 then (Inl IndexError, tr1)
                  else (Inr (tret ! 0), tr1)))"

subsection \<open>Houses and angles\<close>

record house_record =
  house_id :: string
  house_lon :: real
  house_size :: real

record angle_record =
  angle_id :: string
  angle_lon :: real

text \<open>
  The first cusp is appended to the tuple (an empty tuple raises there), then the
  comprehension reads \<open>LIST_HOUSES[i]\<close>, \<open>hlist[i]\<close> and \<open>hlist[i+1]\<close> for
  \<open>i\<close> from 0 to 11, then the angles read \<open>ascmc[0]\<close> and \<open>ascmc[1]\<close>. Every
  out-of-range read is an IndexError.
\<close>

definition sweHouses ::
  "const \<Rightarrow> engine \<Rightarrow> real \<Rightarrow> real \<Rightarrow> real \<Rightarrow> string \<Rightarrow> int \<Rightarrow> call list
     \<Rightarrow> (error + (house_record list \<times> angle_record list)) \<times> call list"
where
  "sweHouses c e jd lat lon hsys flags tr =
     (case SWE_HOUSESYS c hsys of
        None \<Rightarrow> (Inl (KeyError hsys), tr)
      | Some hsys' \<Rightarrow>
          (let tr1 = tr @ [Houses_ex jd lat lon hsys' flags]
           in case houses_ex e tr jd lat lon hsys' flags of
                Inl err \<Rightarrow> (Inl err, tr1)
              | Inr (hlist0, ascmc) \<Rightarrow>
                  if length hlist0 = 0 then (Inl IndexError, tr1)
                  else
                    (let hlist = hlist0 @ [hlist0 ! 0]
                     in if length (LIST_HOUSES c) < 12 \<or> length hlist < 13
                        then (Inl IndexError, tr1)
                        else
                          (let houses =
                                 map (\<lambda>i. \<lparr>house_id = LIST_HOUSES c ! i,
                                            house_lon = hlist ! i,
                                            house_size = distance (hlist ! i) (hlist ! (i + 1))\<rparr>)
                                   [0..<12]
                           in if length ascmc < 2 then (Inl IndexError, tr1)
                              else
                                (Inr (houses,
                                   [\<lparr>angle_id = ASC c, angle_lon = ascmc ! 0\<rparr>,
                                    \<lparr>angle_id = MC c, angle_lon = ascmc ! 1\<rparr>,
                                    \<lparr>angle_id = DESC c, angle_lon = norm_angle (ascmc ! 0 + 180)\<rparr>,
                                    \<lparr>angle_id = IC c, angle_lon = norm_angle (ascmc ! 1 + 180)\<rparr>]),
                                 tr1)))))"

definition sweHousesLon ::
  "const \<Rightarrow> engine \<Rightarrow> real \<Rightarrow> real \<Rightarrow> real \<Rightarrow> string \<Rightarrow> int \<Rightarrow> call list
     \<Rightarrow> (error + (real list \<times> real list)) \<times> call list"
where
  "sweHousesLon c e jd lat lon hsys flags tr =
     (case SWE_HOUSESYS c hsys of
        None \<Rightarrow> (Inl (KeyError hsys), tr)
      | Some hsys' \<Rightarrow>
          (let tr1 = tr @ [Houses_ex jd lat lon hsys' flags]
           in case houses_ex e tr jd lat lon hsys' flags of
                Inl err \<Rightarrow> (Inl err, tr1)
              | Inr (hlist, ascmc) \<Rightarrow>
                  if length ascmc < 2 then (Inl IndexError, tr1)
                  else
                    (Inr (hlist,
                       [ascmc ! 0, ascmc ! 1,
                        norm_angle (ascmc ! 0 + 180), norm_angle (ascmc ! 1 + 180)]),
                     tr1)))"

subsection \<open>Fixed stars\<close>

record star_record =
  star_id :: string
  star_mag :: real
  star_lon :: real
  star_lat :: real

text \<open>
  The argument \<open>flags\<close> is never read: the local \<open>flag\<close> is the constant 0. The
  position routine is called first, then the magnitude routine, then the tuple is read.
\<close>

definition sweFixedStar ::
  "engine \<Rightarrow> string \<Rightarrow> real \<Rightarrow> int \<Rightarrow> call list \<Rightarrow> (error + star_record) \<times> call list"
where
  "sweFixedStar e star jd flags tr =
     (let flag = 0;
          tr1 = tr @ [Fixstar2_ut star jd flag]
      in case fixstar2_ut e tr star jd flag of
           Inl err \<Rightarrow> (Inl err, tr1)
         | Inr (sweList, stnam, flg) \<Rightarrow>
             (let tr2 = tr1 @ [Fixstar2_mag star]
              in case fixstar2_mag e tr1 star of
                   Inl err \<Rightarrow> (Inl err, tr2)
                 | Inr mag \<Rightarrow>
                     if length sweList < 2 then (Inl IndexError, tr2)
                     else (Inr \<lparr>star_id = star, star_mag = mag,
                                star_lon = sweList ! 0, star_lat = sweList ! 1\<rparr>, tr2)))"

subsection \<open>Eclipses\<close>

record solar_eclipse =
  sol_maximum :: real
  sol_begin :: real
  sol_end :: real
  sol_totality_begin :: real
  sol_totality_end :: real
  sol_center_line_begin :: real
  sol_center_line_end :: real

record lunar_eclipse =
  lun_maximum :: real
  lun_partial_begin :: real
  lun_partial_end :: real
  lun_totality_begin :: real
  lun_totality_end :: real
  lun_penumbral_begin :: real
  lun_penumbral_end :: real

text \<open>
  \<open>sweList[1]\<close> is the timing array of the engine's result; the records read its
  positions 0 and 2 to 7, so an array of fewer than eight elements raises IndexError.
\<close>

definition solarEclipseGlobal ::
  "engine \<Rightarrow> real \<Rightarrow> bool \<Rightarrow> call list \<Rightarrow> (error + solar_eclipse) \<times> call list"
where
  "solarEclipseGlobal e jd backward tr =
     (let tr1 = tr @ [Sol_eclipse_when_glob jd backward]
      in case sol_eclipse_when_glob e tr jd backward of
           Inl err \<Rightarrow> (Inl err, tr1)
         | Inr (retflag, tret) \<Rightarrow>
             if length tret < 8 then (Inl IndexError, tr1)
             else (Inr \<lparr>sol_maximum = tret ! 0, sol_begin = tret ! 2, sol_end = tret ! 3,
                        sol_totality_begin = tret ! 4, sol_totality_end = tret ! 5,
                        sol_center_line_begin = tret ! 6, sol_center_line_end = tret ! 7\<rparr>,
                   tr1))"

definition lunarEclipseGlobal ::
  "engine \<Rightarrow> real \<Rightarrow> bool \<Rightarrow> call list \<Rightarrow> (error + lunar_eclipse) \<times> call list"
where
  "lunarEclipseGlobal e jd backward tr =
     (let tr1 = tr @ [Lun_eclipse_when jd backward]
      in case lun_eclipse_when e tr jd backward of
           Inl err \<Rightarrow> (Inl err, tr1)
         | Inr (retflag, tret) \<Rightarrow>
             if length tret < 8 then (Inl IndexError, tr1)
             else (Inr \<lparr>lun_maximum = tret ! 0, lun_partial_begin = tret ! 2,
                        lun_partial_end = tret ! 3, lun_totality_begin = tret ! 4,
                        lun_totality_end = tret ! 5, lun_penumbral_begin = tret ! 6,
                        lun_penumbral_end = tret ! 7\<rparr>,
                   tr1))"

subsection \<open>Concrete instances\<close>

text \<open>
  A table of constants and an engine with fixed answers, on which the definitions are
  evaluated. The engine's answers depend on the mode and flag arguments it is given,
  and its cusps are a parameter.
\<close>

definition sample_const :: const where
  "sample_const = \<lparr>SUN = ''Sun'', MOON = ''Moon'', MERCURY = ''Mercury'', VENUS = ''Venus'', MARS = ''Mars'',
     JUPITER = ''Jupiter'', SATURN = ''Saturn'', URANUS = ''Uranus'', NEPTUNE = ''Neptune'',
     PLUTO = ''Pluto'', CHIRON = ''Chiron'', NORTH_NODE = ''North Node'', PHOLUS = ''Pholus'',
     CERES = ''Ceres'', PALLAS = ''Pallas'', JUNO = ''Juno'', VESTA = ''Vesta'',
     HOUSES_PLACIDUS = ''Placidus'', HOUSES_KOCH = ''Koch'', HOUSES_PORPHYRIUS = ''Porphyrius'',
     HOUSES_REGIOMONTANUS = ''Regiomontanus'', HOUSES_CAMPANUS = ''Campanus'',
     HOUSES_EQUAL = ''Equal'', HOUSES_EQUAL_2 = ''Equal 2'', HOUSES_VEHLOW_EQUAL = ''Vehlow Equal'',
     HOUSES_WHOLE_SIGN = ''Whole Sign'', HOUSES_MERIDIAN = ''Meridian'',
     HOUSES_AZIMUTHAL = ''Azimuthal'', HOUSES_POLICH_PAGE = ''Polich Page'',
     HOUSES_ALCABITUS = ''Alcabitus'', HOUSES_MORINUS = ''Morinus'',
     LIST_HOUSES = [''House1'', ''House2'', ''House3'', ''House4'', ''House5'', ''House6'',
                    ''House7'', ''House8'', ''House9'', ''House10'', ''House11'', ''House12''],
     ASC = ''Asc'', MC = ''MC'', DESC = ''Desc'', IC = ''IC'', SE_PATH = ''/swefiles''\<rparr>"

definition sample_engine :: "real list \<Rightarrow> engine" where
  "sample_engine cusps =
     \<lparr>calc_ut = (\<lambda>tr jd body flags. Inr ([280 + of_int body, 1, 2, 3, 4, 5], flags)),
      rise_trans = (\<lambda>tr jd body lon lat alt press temp rsmi. Inr (0, [jd + of_int rsmi / 4, 0, 0])),
      houses_ex = (\<lambda>tr jd lat lon hsys flags. Inr (cusps, [15, 285, 0, 0, 0, 0, 0, 0])),
      fixstar2_ut = (\<lambda>tr star jd flag. Inr ([100 + of_int flag, 5, 1, 0, 0, 0], star @ '',alTau'', flag)),
      fixstar2_mag = (\<lambda>tr star. Inr (87 / 100)),
      sol_eclipse_when_glob = (\<lambda>tr jd backward. Inr (4, [10, 11, 12, 13, 14, 15, 16, 17, 18, 19])),
      lun_eclipse_when = (\<lambda>tr jd backward. Inr (4, [20, 21, 22, 23, 24, 25, 26, 27, 28, 29])),
      CALC_RISE = 1, CALC_SET = 2\<rparr>"

definition equal_cusps :: "real list" where
  "equal_cusps = [350, 20, 50, 80, 110, 140, 170, 200, 230, 260, 290, 320]"

definition disordered_cusps :: "real list" where
  "disordered_cusps = [0, 30, 60, 90, 120, 150, 180, 210, 240, 270, 300, 290]"

section \<open>Properties\<close>

subsection \<open>Angles\<close>

lemma norm_angle_range: "0 \<le> norm_angle a \<and> norm_angle a < 360"
  unfolding norm_angle_def by linarith

lemma norm_angle_congruent: "\<exists>k::int. norm_angle a = a + 360 * of_int k"
proof
  show "norm_angle a = a + 360 * of_int (- \<lfloor>a / 360\<rfloor>)"
    by (simp add: norm_angle_def)
qed

lemma norm_angle_unique:
  assumes "0 \<le> r" and "r < 360" and "a = r + 360 * of_int (k::int)"
  shows "norm_angle a = r"
proof -
  have "\<lfloor>a / 360\<rfloor> = k"
  proof (rule floor_unique)
    show "of_int k \<le> a / 360" using assms by simp
    show "a / 360 < of_int k + 1" using assms by simp
  qed
  then show ?thesis using assms by (simp add: norm_angle_def)
qed

lemma norm_angle_zero: "norm_angle 0 = 0"
  by (simp add: norm_angle_def)

lemma distance_range: "0 \<le> distance a b \<and> distance a b < 360"
  unfolding distance_def by (rule norm_angle_range)

lemma distance_offsets:
  assumes "norm_angle (a - z) \<le> norm_angle (b - z)"
  shows "distance a b = norm_angle (b - z) - norm_angle (a - z)"
proof -
  let ?ka = "\<lfloor>(a - z) / 360\<rfloor>" and ?kb = "\<lfloor>(b - z) / 360\<rfloor>"
  have r: "0 \<le> norm_angle (b - z) - norm_angle (a - z)" using assms by simp
  have u: "norm_angle (b - z) - norm_angle (a - z) < 360"
    using norm_angle_range [of "b - z"] norm_angle_range [of "a - z"] by linarith
  have e: "b - a = (norm_angle (b - z) - norm_angle (a - z)) + 360 * of_int (?kb - ?ka)"
    by (simp add: norm_angle_def)
  show ?thesis unfolding distance_def by (rule norm_angle_unique [OF r u e])
qed

lemma distance_back:
  assumes "norm_angle (a - z) \<noteq> 0"
  shows "distance a z = 360 - norm_angle (a - z)"
proof -
  let ?ka = "\<lfloor>(a - z) / 360\<rfloor>"
  have p: "0 < norm_angle (a - z)" using assms norm_angle_range [of "a - z"] by linarith
  have r: "0 \<le> 360 - norm_angle (a - z)" using norm_angle_range [of "a - z"] by linarith
  have u: "360 - norm_angle (a - z) < 360" using p by simp
  have e: "z - a = (360 - norm_angle (a - z)) + 360 * of_int (- ?ka - 1)"
    by (simp add: norm_angle_def)
  show ?thesis unfolding distance_def by (rule norm_angle_unique [OF r u e])
qed

subsection \<open>What the house functions return\<close>

lemma upt_12: "[0..<12] = [0, 1, 2, 3, 4, 5, 6, 7, 8, 9, 10, 11::nat]"
  by (simp add: upt_rec)

lemma sweHouses_result:
  assumes "SWE_HOUSESYS c hsys = Some code"
    and "houses_ex e tr jd lat lon code flags = Inr (hlist, ascmc)"
    and "length hlist = 12" and "2 \<le> length ascmc" and "12 \<le> length (LIST_HOUSES c)"
  shows "sweHouses c e jd lat lon hsys flags tr =
     (Inr (map (\<lambda>i. \<lparr>house_id = LIST_HOUSES c ! i, house_lon = hlist ! i,
                       house_size = distance (hlist ! i) (hlist ! ((i + 1) mod 12))\<rparr>) [0..<12],
           [\<lparr>angle_id = ASC c, angle_lon = ascmc ! 0\<rparr>,
            \<lparr>angle_id = MC c, angle_lon = ascmc ! 1\<rparr>,
            \<lparr>angle_id = DESC c, angle_lon = norm_angle (ascmc ! 0 + 180)\<rparr>,
            \<lparr>angle_id = IC c, angle_lon = norm_angle (ascmc ! 1 + 180)\<rparr>]),
      tr @ [Houses_ex jd lat lon code flags])"
proof -
  from assms(3) have ne: "hlist \<noteq> []" by auto
  show ?thesis
    using assms ne by (simp add: sweHouses_def Let_def nth_append upt_12)
qed

lemma sweHousesLon_result:
  assumes "SWE_HOUSESYS c hsys = Some code"
    and "houses_ex e tr jd lat lon code flags = Inr (hlist, ascmc)"
    and "2 \<le> length ascmc"
  shows "sweHousesLon c e jd lat lon hsys flags tr =
     (Inr (hlist, [ascmc ! 0, ascmc ! 1,
                   norm_angle (ascmc ! 0 + 180), norm_angle (ascmc ! 1 + 180)]),
      tr @ [Houses_ex jd lat lon code flags])"
  using assms by (simp add: sweHousesLon_def Let_def)

lemma sample_housesys: "SWE_HOUSESYS sample_const ''Placidus'' = Some (CHR ''P'')"
  by (simp add: SWE_HOUSESYS_def sample_const_def)

subsection \<open>House sizes\<close>

lemma nonneg_multiple:
  fixes m :: int and s :: real
  assumes "s = 360 * of_int m" and "0 \<le> s"
  shows "\<exists>k::nat. s = 360 * real k"
proof -
  from assms have "(0::real) \<le> of_int m" by simp
  then have "0 \<le> m" by simp
  then have "real (nat m) = of_int m" by simp
  with assms(1) have "s = 360 * real (nat m)" by simp
  then show ?thesis by blast
qed

lemma sizes_sum_multiple:
  fixes h0 h1 h2 h3 h4 h5 h6 h7 h8 h9 h10 h11 :: real
  shows "\<exists>k::nat. distance h0 h1 + (distance h1 h2 + (distance h2 h3 + (distance h3 h4 +
     (distance h4 h5 + (distance h5 h6 + (distance h6 h7 + (distance h7 h8 + (distance h8 h9 +
     (distance h9 h10 + (distance h10 h11 + distance h11 h0)))))))))) = 360 * real k"
proof -
  let ?K = "\<lfloor>(h1 - h0) / 360\<rfloor> + \<lfloor>(h2 - h1) / 360\<rfloor> + \<lfloor>(h3 - h2) / 360\<rfloor>
    + \<lfloor>(h4 - h3) / 360\<rfloor> + \<lfloor>(h5 - h4) / 360\<rfloor> + \<lfloor>(h6 - h5) / 360\<rfloor>
    + \<lfloor>(h7 - h6) / 360\<rfloor> + \<lfloor>(h8 - h7) / 360\<rfloor> + \<lfloor>(h9 - h8) / 360\<rfloor>
    + \<lfloor>(h10 - h9) / 360\<rfloor> + \<lfloor>(h11 - h10) / 360\<rfloor> + \<lfloor>(h0 - h11) / 360\<rfloor>"
  let ?S = "distance h0 h1 + (distance h1 h2 + (distance h2 h3 + (distance h3 h4 +
     (distance h4 h5 + (distance h5 h6 + (distance h6 h7 + (distance h7 h8 + (distance h8 h9 +
     (distance h9 h10 + (distance h10 h11 + distance h11 h0))))))))))"
  have eq: "?S = 360 * of_int (- ?K)"
    by (simp add: distance_def norm_angle_def)
  have nonneg: "0 \<le> ?S"
    using distance_range [of h0 h1] distance_range [of h1 h2] distance_range [of h2 h3]
      distance_range [of h3 h4] distance_range [of h4 h5] distance_range [of h5 h6]
      distance_range [of h6 h7] distance_range [of h7 h8] distance_range [of h8 h9]
      distance_range [of h9 h10] distance_range [of h10 h11] distance_range [of h11 h0]
    by linarith
  show ?thesis by (rule nonneg_multiple [OF eq nonneg])
qed

lemma sizes_sum_forward:
  fixes h0 h1 h2 h3 h4 h5 h6 h7 h8 h9 h10 h11 :: real
  assumes "norm_angle (h0 - h0) \<le> norm_angle (h1 - h0)"
    and "norm_angle (h1 - h0) \<le> norm_angle (h2 - h0)"
    and "norm_angle (h2 - h0) \<le> norm_angle (h3 - h0)"
    and "norm_angle (h3 - h0) \<le> norm_angle (h4 - h0)"
    and "norm_angle (h4 - h0) \<le> norm_angle (h5 - h0)"
    and "norm_angle (h5 - h0) \<le> norm_angle (h6 - h0)"
    and "norm_angle (h6 - h0) \<le> norm_angle (h7 - h0)"
    and "norm_angle (h7 - h0) \<le> norm_angle (h8 - h0)"
    and "norm_angle (h8 - h0) \<le> norm_angle (h9 - h0)"
    and "norm_angle (h9 - h0) \<le> norm_angle (h10 - h0)"
    and "norm_angle (h10 - h0) \<le> norm_angle (h11 - h0)"
    and "norm_angle (h11 - h0) \<noteq> 0"
  shows "distance h0 h1 + (distance h1 h2 + (distance h2 h3 + (distance h3 h4 +
     (distance h4 h5 + (distance h5 h6 + (distance h6 h7 + (distance h7 h8 + (distance h8 h9 +
     (distance h9 h10 + (distance h10 h11 + distance h11 h0)))))))))) = 360"
  using distance_offsets [OF assms(1)] distance_offsets [OF assms(2)]
    distance_offsets [OF assms(3)] distance_offsets [OF assms(4)]
    distance_offsets [OF assms(5)] distance_offsets [OF assms(6)]
    distance_offsets [OF assms(7)] distance_offsets [OF assms(8)]
    distance_offsets [OF assms(9)] distance_offsets [OF assms(10)]
    distance_offsets [OF assms(11)] distance_back [OF assms(12)]
  by (simp add: norm_angle_zero)

lemma length_12_explicit:
  assumes "length xs = 12"
  obtains a0 a1 a2 a3 a4 a5 a6 a7 a8 a9 a10 a11
  where "xs = [a0, a1, a2, a3, a4, a5, a6, a7, a8, a9, a10, a11]"
  using assms by (auto simp: eval_nat_numeral length_Suc_conv)

text \<open>
  C1 (as amended). When the engine returns twelve cusps (and at least two angles, with
  twelve house labels at hand), \<open>sweHouses\<close> returns twelve houses whose sizes are
  the forward distances from each cusp to the next, the twelfth to the first. Each size
  lies in [0, 360), and the sizes sum to a multiple of 360 by a natural number. The sum
  is 360 itself when the cusps run forward once round the circle: their offsets from
  the first cusp do not decrease and the last cusp is not at the first cusp's longitude.
\<close>

theorem sweHouses_house_sizes:
  assumes "SWE_HOUSESYS c hsys = Some code"
    and "houses_ex e tr jd lat lon code flags = Inr (hlist, ascmc)"
    and "length hlist = 12" and "2 \<le> length ascmc" and "12 \<le> length (LIST_HOUSES c)"
  shows "\<exists>houses angles.
      fst (sweHouses c e jd lat lon hsys flags tr) = Inr (houses, angles)
    \<and> map house_size houses =
        map (\<lambda>i. distance (hlist ! i) (hlist ! ((i + 1) mod 12))) [0..<12]
    \<and> (\<forall>s \<in> set (map house_size houses). 0 \<le> s \<and> s < 360)
    \<and> (\<exists>k::nat. sum_list (map house_size houses) = 360 * real k)
    \<and> (sorted (map (\<lambda>x. norm_angle (x - hlist ! 0)) hlist)
         \<and> norm_angle (hlist ! 11 - hlist ! 0) \<noteq> 0
        \<longrightarrow> sum_list (map house_size houses) = 360)"
proof -
  let ?houses = "map (\<lambda>i. \<lparr>house_id = LIST_HOUSES c ! i, house_lon = hlist ! i,
                       house_size = distance (hlist ! i) (hlist ! ((i + 1) mod 12))\<rparr>) [0..<12]"
  let ?sizes = "map (\<lambda>i. distance (hlist ! i) (hlist ! ((i + 1) mod 12))) [0..<12]"
  let ?angles = "[\<lparr>angle_id = ASC c, angle_lon = ascmc ! 0\<rparr>,
            \<lparr>angle_id = MC c, angle_lon = ascmc ! 1\<rparr>,
            \<lparr>angle_id = DESC c, angle_lon = norm_angle (ascmc ! 0 + 180)\<rparr>,
            \<lparr>angle_id = IC c, angle_lon = norm_angle (ascmc ! 1 + 180)\<rparr>]"
  have res: "fst (sweHouses c e jd lat lon hsys flags tr) = Inr (?houses, ?angles)"
    by (simp add: sweHouses_result [OF assms])
  have sz: "map house_size ?houses = ?sizes" by (simp add: comp_def)
  have rng: "\<forall>s \<in> set (map house_size ?houses). 0 \<le> s \<and> s < 360"
    unfolding sz using distance_range by auto
  obtain a0 a1 a2 a3 a4 a5 a6 a7 a8 a9 a10 a11
    where xs: "hlist = [a0, a1, a2, a3, a4, a5, a6, a7, a8, a9, a10, a11]"
    using length_12_explicit [OF assms(3)] by blast
  have sum_eq: "sum_list ?sizes = distance a0 a1 + (distance a1 a2 + (distance a2 a3 +
     (distance a3 a4 + (distance a4 a5 + (distance a5 a6 + (distance a6 a7 + (distance a7 a8 +
     (distance a8 a9 + (distance a9 a10 + (distance a10 a11 + distance a11 a0))))))))))"
    by (simp add: xs upt_12)
  have mult: "\<exists>k::nat. sum_list (map house_size ?houses) = 360 * real k"
    unfolding sz sum_eq by (rule sizes_sum_multiple)
  have fwd: "sorted (map (\<lambda>x. norm_angle (x - hlist ! 0)) hlist)
         \<and> norm_angle (hlist ! 11 - hlist ! 0) \<noteq> 0
        \<longrightarrow> sum_list (map house_size ?houses) = 360"
  proof
    assume a: "sorted (map (\<lambda>x. norm_angle (x - hlist ! 0)) hlist)
         \<and> norm_angle (hlist ! 11 - hlist ! 0) \<noteq> 0"
    show "sum_list (map house_size ?houses) = 360"
      unfolding sz sum_eq using a by (intro sizes_sum_forward) (simp_all add: xs)
  qed
  have "fst (sweHouses c e jd lat lon hsys flags tr) = Inr (?houses, ?angles)
    \<and> map house_size ?houses = ?sizes
    \<and> (\<forall>s \<in> set (map house_size ?houses). 0 \<le> s \<and> s < 360)
    \<and> (\<exists>k::nat. sum_list (map house_size ?houses) = 360 * real k)
    \<and> (sorted (map (\<lambda>x. norm_angle (x - hlist ! 0)) hlist)
         \<and> norm_angle (hlist ! 11 - hlist ! 0) \<noteq> 0
        \<longrightarrow> sum_list (map house_size ?houses) = 360)"
    by (intro conjI) (rule res sz rng mult fwd)+
  then show ?thesis by - (rule exI, rule exI)
qed

theorem sweHouses_house_sizes_witness:
  "SWE_HOUSESYS sample_const ''Placidus'' = Some (CHR ''P'')
   \<and> length equal_cusps = 12
   \<and> sorted (map (\<lambda>x. norm_angle (x - equal_cusps ! 0)) equal_cusps)
   \<and> norm_angle (equal_cusps ! 11 - equal_cusps ! 0) \<noteq> 0
   \<and> sum_list (map house_size (fst (projr (fst
         (sweHouses sample_const (sample_engine equal_cusps) 2451545 40 (- 8) ''Placidus'' 0 []))))) = 360"
proof -
  have h1: "SWE_HOUSESYS sample_const ''Placidus'' = Some (CHR ''P'')"
    by (rule sample_housesys)
  have h2: "houses_ex (sample_engine equal_cusps) [] 2451545 40 (- 8) (CHR ''P'') 0
              = Inr (equal_cusps, [15, 285, 0, 0, 0, 0, 0, 0])"
    by (simp add: sample_engine_def)
  have h3: "length equal_cusps = 12" by (simp add: equal_cusps_def)
  have h4: "2 \<le> length [15, 285, 0, 0, 0, 0, 0, 0 :: real]" by simp
  have h5: "12 \<le> length (LIST_HOUSES sample_const)" by (simp add: sample_const_def)
  have s1: "sorted (map (\<lambda>x. norm_angle (x - equal_cusps ! 0)) equal_cusps)"
    by (simp add: equal_cusps_def norm_angle_def)
  have s2: "norm_angle (equal_cusps ! 11 - equal_cusps ! 0) \<noteq> 0"
    by (simp add: equal_cusps_def norm_angle_def)
  from sweHouses_house_sizes [OF h1 h2 h3 h4 h5] s1 s2
  obtain houses angles where
    r: "fst (sweHouses sample_const (sample_engine equal_cusps) 2451545 40 (- 8) ''Placidus'' 0 [])
          = Inr (houses, angles)"
    and s: "sum_list (map house_size houses) = 360"
    by blast
  from r s have "sum_list (map house_size (fst (projr (fst
         (sweHouses sample_const (sample_engine equal_cusps) 2451545 40 (- 8) ''Placidus'' 0 []))))) = 360"
    by simp
  with h1 h3 s1 s2 show ?thesis by blast
qed

text \<open>
  The sum is not 360 for every twelve-element tuple: when the last two cusps are out
  of order the sizes sum to 720.
\<close>

theorem sweHouses_sum_counterexample:
  "length disordered_cusps = 12
   \<and> \<not> isl (fst (sweHouses sample_const (sample_engine disordered_cusps) 2451545 40 (- 8) ''Placidus'' 0 []))
   \<and> sum_list (map house_size (fst (projr (fst
         (sweHouses sample_const (sample_engine disordered_cusps) 2451545 40 (- 8) ''Placidus'' 0 []))))) = 720"
proof -
  have h2: "houses_ex (sample_engine disordered_cusps) [] 2451545 40 (- 8) (CHR ''P'') 0
              = Inr (disordered_cusps, [15, 285, 0, 0, 0, 0, 0, 0])"
    by (simp add: sample_engine_def)
  have h3: "length disordered_cusps = 12" by (simp add: disordered_cusps_def)
  have h4: "2 \<le> length [15, 285, 0, 0, 0, 0, 0, 0 :: real]" by simp
  have h5: "12 \<le> length (LIST_HOUSES sample_const)" by (simp add: sample_const_def)
  note r = sweHouses_result [OF sample_housesys h2 h3 h4 h5]
  show ?thesis
    unfolding r
    by (simp add: comp_def upt_12 disordered_cusps_def distance_def norm_angle_def)
qed

subsection \<open>Lookups in the concrete table, and the angles of the full variant\<close>

lemma sample_object: "SWE_OBJECTS sample_const ''Sun'' = Some 0"
  by (simp add: SWE_OBJECTS_def sample_const_def)

lemma sample_object_moon: "SWE_OBJECTS sample_const ''Moon'' = Some 1"
  by (simp add: SWE_OBJECTS_def sample_const_def)

lemma sample_object_unmapped: "SWE_OBJECTS sample_const ''Lilith'' = None"
  by (simp add: SWE_OBJECTS_def sample_const_def)

lemma sample_housesys_unmapped: "SWE_HOUSESYS sample_const ''Topocentric'' = None"
  by (simp add: SWE_HOUSESYS_def sample_const_def)

lemma sweHouses_angles:
  assumes "SWE_HOUSESYS c hsys = Some code"
    and "houses_ex e tr jd lat lon code flags = Inr (hlist, ascmc)"
    and "12 \<le> length hlist" and "2 \<le> length ascmc" and "12 \<le> length (LIST_HOUSES c)"
  shows "\<exists>houses. sweHouses c e jd lat lon hsys flags tr =
     (Inr (houses,
           [\<lparr>angle_id = ASC c, angle_lon = ascmc ! 0\<rparr>,
            \<lparr>angle_id = MC c, angle_lon = ascmc ! 1\<rparr>,
            \<lparr>angle_id = DESC c, angle_lon = norm_angle (ascmc ! 0 + 180)\<rparr>,
            \<lparr>angle_id = IC c, angle_lon = norm_angle (ascmc ! 1 + 180)\<rparr>]),
      tr @ [Houses_ex jd lat lon code flags])"
proof -
  from assms(3) have ne: "hlist \<noteq> []" by auto
  show ?thesis
    using assms ne by (simp add: sweHouses_def Let_def)
qed

subsection \<open>Derived angles\<close>

text \<open>
  C2. When the engine returns at least twelve cusps and angles that begin with the
  Ascendant A and the Midheaven M, \<open>sweHouses\<close> returns the four angle records
  Ascendant, Midheaven, Descendant, Imum Coeli in that order, and \<open>sweHousesLon\<close>
  the four longitudes in the same order. In both the Descendant is \<open>norm (A + 180)\<close>
  and the Imum Coeli is \<open>norm (M + 180)\<close>: a value in [0, 360) that differs from
  the sum by a whole multiple of 360.
\<close>

theorem derived_angles:
  assumes "SWE_HOUSESYS c hsys = Some code"
    and "houses_ex e tr jd lat lon code flags = Inr (hlist, ascmc)"
    and "12 \<le> length hlist" and "2 \<le> length ascmc" and "12 \<le> length (LIST_HOUSES c)"
  shows "\<exists>houses.
      fst (sweHouses c e jd lat lon hsys flags tr) =
        Inr (houses,
             [\<lparr>angle_id = ASC c, angle_lon = ascmc ! 0\<rparr>,
              \<lparr>angle_id = MC c, angle_lon = ascmc ! 1\<rparr>,
              \<lparr>angle_id = DESC c, angle_lon = norm_angle (ascmc ! 0 + 180)\<rparr>,
              \<lparr>angle_id = IC c, angle_lon = norm_angle (ascmc ! 1 + 180)\<rparr>])
    \<and> fst (sweHousesLon c e jd lat lon hsys flags tr) =
        Inr (hlist, [ascmc ! 0, ascmc ! 1,
                     norm_angle (ascmc ! 0 + 180), norm_angle (ascmc ! 1 + 180)])
    \<and> 0 \<le> norm_angle (ascmc ! 0 + 180) \<and> norm_angle (ascmc ! 0 + 180) < 360
    \<and> (\<exists>k::int. norm_angle (ascmc ! 0 + 180) = ascmc ! 0 + 180 + 360 * of_int k)
    \<and> 0 \<le> norm_angle (ascmc ! 1 + 180) \<and> norm_angle (ascmc ! 1 + 180) < 360
    \<and> (\<exists>k::int. norm_angle (ascmc ! 1 + 180) = ascmc ! 1 + 180 + 360 * of_int k)"
proof -
  from sweHouses_angles [OF assms] obtain houses where
    h: "fst (sweHouses c e jd lat lon hsys flags tr) =
        Inr (houses,
             [\<lparr>angle_id = ASC c, angle_lon = ascmc ! 0\<rparr>,
              \<lparr>angle_id = MC c, angle_lon = ascmc ! 1\<rparr>,
              \<lparr>angle_id = DESC c, angle_lon = norm_angle (ascmc ! 0 + 180)\<rparr>,
              \<lparr>angle_id = IC c, angle_lon = norm_angle (ascmc ! 1 + 180)\<rparr>])"
    by auto
  have l: "fst (sweHousesLon c e jd lat lon hsys flags tr) =
        Inr (hlist, [ascmc ! 0, ascmc ! 1,
                     norm_angle (ascmc ! 0 + 180), norm_angle (ascmc ! 1 + 180)])"
    by (simp add: sweHousesLon_result [OF assms(1) assms(2) assms(4)])
  note r0 = norm_angle_range [of "ascmc ! 0 + 180"]
  note r1 = norm_angle_range [of "ascmc ! 1 + 180"]
  note c0 = norm_angle_congruent [of "ascmc ! 0 + 180"]
  note c1 = norm_angle_congruent [of "ascmc ! 1 + 180"]
  have "fst (sweHouses c e jd lat lon hsys flags tr) =
        Inr (houses,
             [\<lparr>angle_id = ASC c, angle_lon = ascmc ! 0\<rparr>,
              \<lparr>angle_id = MC c, angle_lon = ascmc ! 1\<rparr>,
              \<lparr>angle_id = DESC c, angle_lon = norm_angle (ascmc ! 0 + 180)\<rparr>,
              \<lparr>angle_id = IC c, angle_lon = norm_angle (ascmc ! 1 + 180)\<rparr>])
    \<and> fst (sweHousesLon c e jd lat lon hsys flags tr) =
        Inr (hlist, [ascmc ! 0, ascmc ! 1,
                     norm_angle (ascmc ! 0 + 180), norm_angle (ascmc ! 1 + 180)])
    \<and> 0 \<le> norm_angle (ascmc ! 0 + 180) \<and> norm_angle (ascmc ! 0 + 180) < 360
    \<and> (\<exists>k::int. norm_angle (ascmc ! 0 + 180) = ascmc ! 0 + 180 + 360 * of_int k)
    \<and> 0 \<le> norm_angle (ascmc ! 1 + 180) \<and> norm_angle (ascmc ! 1 + 180) < 360
    \<and> (\<exists>k::int. norm_angle (ascmc ! 1 + 180) = ascmc ! 1 + 180 + 360 * of_int k)"
    using h l r0 r1 c0 c1 by (intro conjI) (assumption | erule conjunct1 | erule conjunct2)+
  then show ?thesis by - (rule exI)
qed

theorem derived_angles_witness:
  "SWE_HOUSESYS sample_const ''Placidus'' = Some (CHR ''P'')
   \<and> 12 \<le> length equal_cusps
   \<and> map angle_id (snd (projr (fst
        (sweHouses sample_const (sample_engine equal_cusps) 2451545 40 (- 8) ''Placidus'' 0 []))))
       = [''Asc'', ''MC'', ''Desc'', ''IC'']
   \<and> map angle_lon (snd (projr (fst
        (sweHouses sample_const (sample_engine equal_cusps) 2451545 40 (- 8) ''Placidus'' 0 []))))
       = [15, 285, 195, 105]
   \<and> snd (projr (fst
        (sweHousesLon sample_const (sample_engine equal_cusps) 2451545 40 (- 8) ''Placidus'' 0 [])))
       = [15, 285, 195, 105]"
proof -
  have h2: "houses_ex (sample_engine equal_cusps) [] 2451545 40 (- 8) (CHR ''P'') 0
              = Inr (equal_cusps, [15, 285, 0, 0, 0, 0, 0, 0])"
    by (simp add: sample_engine_def)
  have h3: "12 \<le> length equal_cusps" by (simp add: equal_cusps_def)
  have h4: "2 \<le> length [15, 285, 0, 0, 0, 0, 0, 0 :: real]" by simp
  have h5: "12 \<le> length (LIST_HOUSES sample_const)" by (simp add: sample_const_def)
  from derived_angles [OF sample_housesys h2 h3 h4 h5] obtain houses where
    a: "fst (sweHouses sample_const (sample_engine equal_cusps) 2451545 40 (- 8) ''Placidus'' 0 [])
        = Inr (houses,
             [\<lparr>angle_id = ASC sample_const, angle_lon = [15, 285, 0, 0, 0, 0, 0, 0] ! 0\<rparr>,
              \<lparr>angle_id = MC sample_const, angle_lon = [15, 285, 0, 0, 0, 0, 0, 0] ! 1\<rparr>,
              \<lparr>angle_id = DESC sample_const,
                 angle_lon = norm_angle ([15, 285, 0, 0, 0, 0, 0, 0] ! 0 + 180)\<rparr>,
              \<lparr>angle_id = IC sample_const,
                 angle_lon = norm_angle ([15, 285, 0, 0, 0, 0, 0, 0] ! 1 + 180)\<rparr>])"
    and b: "fst (sweHousesLon sample_const (sample_engine equal_cusps) 2451545 40 (- 8) ''Placidus'' 0 [])
        = Inr (equal_cusps, [[15, 285, 0, 0, 0, 0, 0, 0] ! 0, [15, 285, 0, 0, 0, 0, 0, 0] ! 1,
                     norm_angle ([15, 285, 0, 0, 0, 0, 0, 0] ! 0 + 180),
                     norm_angle ([15, 285, 0, 0, 0, 0, 0, 0] ! 1 + 180)])"
    by blast
  show ?thesis
    unfolding a b using sample_housesys h3
    by (simp add: sample_const_def norm_angle_def)
qed

subsection \<open>Unmapped identifiers\<close>

text \<open>
  C3. When the body identifier is not a key of \<open>SWE_OBJECTS\<close>, each of
  \<open>sweObject\<close>, \<open>sweObjectLon\<close> and \<open>sweNextTransit\<close> raises KeyError and leaves
  the list of engine events as it was: no engine routine has been called, the path has
  not been set. The same holds for \<open>sweHouses\<close> and \<open>sweHousesLon\<close> when the
  house system is not a key of \<open>SWE_HOUSESYS\<close>.
\<close>

theorem unmapped_identifier_raises:
  "(SWE_OBJECTS c obj = None \<longrightarrow>
        sweObject c e obj jd flags tr = (Inl (KeyError obj), tr)
      \<and> sweObjectLon c e obj jd flags tr = (Inl (KeyError obj), tr)
      \<and> sweNextTransit c e obj jd lat lon flag tr = (Inl (KeyError obj), tr))
   \<and> (SWE_HOUSESYS c hsys = None \<longrightarrow>
        sweHouses c e jd lat lon hsys flags tr = (Inl (KeyError hsys), tr)
      \<and> sweHousesLon c e jd lat lon hsys flags tr = (Inl (KeyError hsys), tr))"
  by (simp add: sweObject_def sweObjectLon_def sweNextTransit_def sweHouses_def sweHousesLon_def)

theorem unmapped_identifier_raises_witness:
  "SWE_OBJECTS sample_const ''Lilith'' = None
   \<and> SWE_HOUSESYS sample_const ''Topocentric'' = None
   \<and> sweObject sample_const (sample_engine equal_cusps) ''Lilith'' 2451545 0 []
        = (Inl (KeyError ''Lilith''), [])
   \<and> sweObjectLon sample_const (sample_engine equal_cusps) ''Lilith'' 2451545 0 []
        = (Inl (KeyError ''Lilith''), [])
   \<and> sweNextTransit sample_const (sample_engine equal_cusps) ''Lilith'' 2451545 40 (- 8) ''RISE'' []
        = (Inl (KeyError ''Lilith''), [])
   \<and> sweHouses sample_const (sample_engine equal_cusps) 2451545 40 (- 8) ''Topocentric'' 0 []
        = (Inl (KeyError ''Topocentric''), [])
   \<and> sweHousesLon sample_const (sample_engine equal_cusps) 2451545 40 (- 8) ''Topocentric'' 0 []
        = (Inl (KeyError ''Topocentric''), [])"
  using unmapped_identifier_raises [of sample_const "''Lilith''" "sample_engine equal_cusps"
      2451545 0 "[]" 40 "- 8" "''RISE''" "''Topocentric''"]
    sample_object_unmapped sample_housesys_unmapped
  by simp

subsection \<open>Transit direction\<close>

text \<open>
  C4. For a mapped body \<open>sweNextTransit\<close> asks the engine's rise/transit routine
  once, with the mode \<open>CALC_RISE\<close> when the flag is the string RISE and the mode
  \<open>CALC_SET\<close> for every other flag, and returns what the engine answers for that
  mode: the first element of the timing array, or the engine's error. The call is
  recorded with the same mode. Any two flags other than RISE give the same result and
  the same engine events.
\<close>

theorem sweNextTransit_direction:
  "(SWE_OBJECTS c obj = Some sweObj \<longrightarrow>
      fst (sweNextTransit c e obj jd lat lon flag tr) =
        (case rise_trans e tr jd sweObj lon lat 0 0 0
                (if flag = ''RISE'' then CALC_RISE e else CALC_SET e) of
           Inl err \<Rightarrow> Inl err
         | Inr (res, tret) \<Rightarrow> if tret = [] then Inl IndexError else Inr (tret ! 0))
    \<and> snd (sweNextTransit c e obj jd lat lon flag tr) =
        tr @ [Rise_trans jd sweObj lon lat 0 0 0
                (if flag = ''RISE'' then CALC_RISE e else CALC_SET e)])
   \<and> (flag1 \<noteq> ''RISE'' \<and> flag2 \<noteq> ''RISE'' \<longrightarrow>
        sweNextTransit c e obj jd lat lon flag1 tr = sweNextTransit c e obj jd lat lon flag2 tr)"
  by (simp add: sweNextTransit_def Let_def split: sum.splits prod.splits)

theorem sweNextTransit_direction_witness:
  "SWE_OBJECTS sample_const ''Sun'' = Some 0
   \<and> ''SET'' \<noteq> ''RISE'' \<and> ''DOWN'' \<noteq> ''RISE''
   \<and> rise_trans (sample_engine equal_cusps) [] 2451545 0 (- 8) 40 0 0 0
         (CALC_RISE (sample_engine equal_cusps)) = Inr (0, [2451545 + 1 / 4, 0, 0])
   \<and> rise_trans (sample_engine equal_cusps) [] 2451545 0 (- 8) 40 0 0 0
         (CALC_SET (sample_engine equal_cusps)) = Inr (0, [2451545 + 2 / 4, 0, 0])
   \<and> sweNextTransit sample_const (sample_engine equal_cusps) ''Sun'' 2451545 40 (- 8) ''RISE'' []
        = (Inr (2451545 + 1 / 4), [Rise_trans 2451545 0 (- 8) 40 0 0 0 1])
   \<and> sweNextTransit sample_const (sample_engine equal_cusps) ''Sun'' 2451545 40 (- 8) ''DOWN'' []
        = (Inr (2451545 + 2 / 4), [Rise_trans 2451545 0 (- 8) 40 0 0 0 2])
   \<and> sweNextTransit sample_const (sample_engine equal_cusps) ''Sun'' 2451545 40 (- 8) ''SET'' []
        = sweNextTransit sample_const (sample_engine equal_cusps) ''Sun'' 2451545 40 (- 8) ''DOWN'' []"
proof -
  let ?e = "sample_engine equal_cusps"
  have r: "rise_trans ?e [] 2451545 0 (- 8) 40 0 0 0 (CALC_RISE ?e) = Inr (0, [2451545 + 1 / 4, 0, 0])"
    by (simp add: sample_engine_def)
  have s: "rise_trans ?e [] 2451545 0 (- 8) 40 0 0 0 (CALC_SET ?e) = Inr (0, [2451545 + 2 / 4, 0, 0])"
    by (simp add: sample_engine_def)
  note up = sweNextTransit_direction [of sample_const "''Sun''" 0 ?e
      2451545 40 "- 8" "''RISE''" "[]" "''SET''" "''DOWN''"]
  note down = sweNextTransit_direction [of sample_const "''Sun''" 0 ?e
      2451545 40 "- 8" "''DOWN''" "[]" "''SET''" "''DOWN''"]
  have a: "sweNextTransit sample_const ?e ''Sun'' 2451545 40 (- 8) ''RISE'' []
        = (Inr (2451545 + 1 / 4), [Rise_trans 2451545 0 (- 8) 40 0 0 0 1])"
    using up sample_object by (simp add: sample_engine_def prod_eq_iff)
  have b: "sweNextTransit sample_const ?e ''Sun'' 2451545 40 (- 8) ''DOWN'' []
        = (Inr (2451545 + 2 / 4), [Rise_trans 2451545 0 (- 8) 40 0 0 0 2])"
    using down sample_object by (simp add: sample_engine_def prod_eq_iff)
  have c: "sweNextTransit sample_const ?e ''Sun'' 2451545 40 (- 8) ''SET'' []
        = sweNextTransit sample_const ?e ''Sun'' 2451545 40 (- 8) ''DOWN'' []"
    using up by simp
  show ?thesis
    using sample_object r s a b c by simp
qed

subsection \<open>Fixed stars\<close>

text \<open>
  C5. The result of \<open>sweFixedStar\<close>, and the engine events it leaves, are the same
  for any two values of the flags argument; the first engine call it makes is the
  position routine with flag 0.
\<close>

theorem sweFixedStar_flags_ignored:
  "sweFixedStar e star jd flags1 tr = sweFixedStar e star jd flags2 tr
   \<and> take (Suc (length tr)) (snd (sweFixedStar e star jd flags1 tr)) = tr @ [Fixstar2_ut star jd 0]"
  by (simp add: sweFixedStar_def Let_def split: sum.splits prod.splits)

subsection \<open>Ephemeris path\<close>

text \<open>
  C6. For a mapped body \<open>sweObject\<close> first gives the engine the configured path
  \<open>SE_PATH\<close> and then calls the position routine; \<open>sweObjectLon\<close> calls the same
  routine with the same arguments and sets no path.
\<close>

theorem ephemeris_path_set_by_sweObject_only:
  assumes "SWE_OBJECTS c obj = Some sweObj"
  shows "snd (sweObject c e obj jd flags tr) =
           tr @ [Set_ephe_path (SE_PATH c), Calc_ut jd sweObj flags]
       \<and> snd (sweObjectLon c e obj jd flags tr) = tr @ [Calc_ut jd sweObj flags]"
  using assms
  by (simp add: sweObject_def sweObjectLon_def setPath_def Let_def split: sum.splits prod.splits)

theorem ephemeris_path_set_by_sweObject_only_witness:
  "SWE_OBJECTS sample_const ''Moon'' = Some 1
   \<and> snd (sweObject sample_const (sample_engine equal_cusps) ''Moon'' 2451545 258 [])
        = [Set_ephe_path ''/swefiles'', Calc_ut 2451545 1 258]
   \<and> snd (sweObjectLon sample_const (sample_engine equal_cusps) ''Moon'' 2451545 258 [])
        = [Calc_ut 2451545 1 258]"
  using ephemeris_path_set_by_sweObject_only [OF sample_object_moon,
      of "sample_engine equal_cusps" 2451545 258 "[]"] sample_object_moon
  by (simp add: sample_const_def)

subsection \<open>Fields of the object record\<close>

text \<open>
  C7. For a mapped body, when the position routine (called after the path is set)
  returns a tuple of at least five elements and status flags, \<open>sweObject\<close> returns
  the record whose longitude, latitude, longitude speed and latitude speed are elements
  0, 1, 3 and 4 of the tuple, with the returned flags; element 2 is not read.
\<close>

theorem sweObject_fields:
  assumes "SWE_OBJECTS c obj = Some sweObj"
    and "calc_ut e (tr @ [Set_ephe_path (SE_PATH c)]) jd sweObj flags = Inr (sweList, flg)"
    and "5 \<le> length sweList"
  shows "fst (sweObject c e obj jd flags tr) =
     Inr \<lparr>obj_id = obj, obj_lon = sweList ! 0, obj_lat = sweList ! 1,
          obj_lonspeed = sweList ! 3, obj_latspeed = sweList ! 4, obj_flg = flg\<rparr>"
  using assms by (simp add: sweObject_def setPath_def Let_def)

theorem sweObject_fields_witness:
  "SWE_OBJECTS sample_const ''Moon'' = Some 1
   \<and> calc_ut (sample_engine equal_cusps) ([] @ [Set_ephe_path (SE_PATH sample_const)]) 2451545 1 258
       = Inr ([281, 1, 2, 3, 4, 5], 258)
   \<and> 5 \<le> length [281, 1, 2, 3, 4, 5 :: real]
   \<and> fst (sweObject sample_const (sample_engine equal_cusps) ''Moon'' 2451545 258 []) =
       Inr \<lparr>obj_id = ''Moon'', obj_lon = 281, obj_lat = 1,
            obj_lonspeed = 3, obj_latspeed = 4, obj_flg = 258\<rparr>"
proof -
  have h2: "calc_ut (sample_engine equal_cusps) ([] @ [Set_ephe_path (SE_PATH sample_const)])
              2451545 1 258 = Inr ([281, 1, 2, 3, 4, 5], 258)"
    by (simp add: sample_engine_def)
  have h3: "5 \<le> length [281, 1, 2, 3, 4, 5 :: real]" by simp
  show ?thesis
    using sweObject_fields [OF sample_object_moon h2 h3] sample_object_moon h2 h3 by simp
qed

subsection \<open>The reduced house variant\<close>

text \<open>
  C8. On the same inputs and the same engine answer of twelve cusps, the twelve
  longitudes returned by \<open>sweHousesLon\<close> are the \<open>lon\<close> fields of the twelve
  house records of \<open>sweHouses\<close>, in order, and its four angle longitudes are the
  \<open>lon\<close> fields of the four angle records, in order.
\<close>

theorem sweHousesLon_matches_sweHouses:
  assumes "SWE_HOUSESYS c hsys = Some code"
    and "houses_ex e tr jd lat lon code flags = Inr (hlist, ascmc)"
    and "length hlist = 12" and "2 \<le> length ascmc" and "12 \<le> length (LIST_HOUSES c)"
  shows "\<exists>houses angles hlons alons.
      fst (sweHouses c e jd lat lon hsys flags tr) = Inr (houses, angles)
    \<and> fst (sweHousesLon c e jd lat lon hsys flags tr) = Inr (hlons, alons)
    \<and> length hlons = 12 \<and> length alons = 4
    \<and> map house_lon houses = hlons
    \<and> map angle_lon angles = alons"
proof -
  let ?houses = "map (\<lambda>i. \<lparr>house_id = LIST_HOUSES c ! i, house_lon = hlist ! i,
                       house_size = distance (hlist ! i) (hlist ! ((i + 1) mod 12))\<rparr>) [0..<12]"
  let ?angles = "[\<lparr>angle_id = ASC c, angle_lon = ascmc ! 0\<rparr>,
            \<lparr>angle_id = MC c, angle_lon = ascmc ! 1\<rparr>,
            \<lparr>angle_id = DESC c, angle_lon = norm_angle (ascmc ! 0 + 180)\<rparr>,
            \<lparr>angle_id = IC c, angle_lon = norm_angle (ascmc ! 1 + 180)\<rparr>]"
  let ?alons = "[ascmc ! 0, ascmc ! 1,
                 norm_angle (ascmc ! 0 + 180), norm_angle (ascmc ! 1 + 180)]"
  have full: "fst (sweHouses c e jd lat lon hsys flags tr) = Inr (?houses, ?angles)"
    by (simp add: sweHouses_result [OF assms])
  have reduced: "fst (sweHousesLon c e jd lat lon hsys flags tr) = Inr (hlist, ?alons)"
    by (simp add: sweHousesLon_result [OF assms(1) assms(2) assms(4)])
  have "map house_lon ?houses = map ((!) hlist) [0..<length hlist]"
    by (simp add: comp_def assms(3))
  then have cusps: "map house_lon ?houses = hlist"
    by (simp only: map_nth)
  have angs: "map angle_lon ?angles = ?alons" by simp
  have len: "length ?alons = 4" by simp
  have "fst (sweHouses c e jd lat lon hsys flags tr) = Inr (?houses, ?angles)
    \<and> fst (sweHousesLon c e jd lat lon hsys flags tr) = Inr (hlist, ?alons)
    \<and> length hlist = 12 \<and> length ?alons = 4
    \<and> map house_lon ?houses = hlist
    \<and> map angle_lon ?angles = ?alons"
    by (intro conjI) (rule full reduced assms(3) len cusps angs)+
  then show ?thesis by - (rule exI, rule exI, rule exI, rule exI)
qed

theorem sweHousesLon_matches_sweHouses_witness:
  "SWE_HOUSESYS sample_const ''Placidus'' = Some (CHR ''P'')
   \<and> length equal_cusps = 12
   \<and> map house_lon (fst (projr (fst
        (sweHouses sample_const (sample_engine equal_cusps) 2451545 40 (- 8) ''Placidus'' 0 []))))
     = fst (projr (fst
        (sweHousesLon sample_const (sample_engine equal_cusps) 2451545 40 (- 8) ''Placidus'' 0 [])))
   \<and> map angle_lon (snd (projr (fst
        (sweHouses sample_const (sample_engine equal_cusps) 2451545 40 (- 8) ''Placidus'' 0 []))))
     = snd (projr (fst
        (sweHousesLon sample_const (sample_engine equal_cusps) 2451545 40 (- 8) ''Placidus'' 0 [])))
   \<and> length (fst (projr (fst
        (sweHousesLon sample_const (sample_engine equal_cusps) 2451545 40 (- 8) ''Placidus'' 0 []))))
     = 12"
proof -
  have h2: "houses_ex (sample_engine equal_cusps) [] 2451545 40 (- 8) (CHR ''P'') 0
              = Inr (equal_cusps, [15, 285, 0, 0, 0, 0, 0, 0])"
    by (simp add: sample_engine_def)
  have h3: "length equal_cusps = 12" by (simp add: equal_cusps_def)
  have h4: "2 \<le> length [15, 285, 0, 0, 0, 0, 0, 0 :: real]" by simp
  have h5: "12 \<le> length (LIST_HOUSES sample_const)" by (simp add: sample_const_def)
  from sweHousesLon_matches_sweHouses [OF sample_housesys h2 h3 h4 h5]
  obtain houses angles hlons alons where
    a: "fst (sweHouses sample_const (sample_engine equal_cusps) 2451545 40 (- 8) ''Placidus'' 0 [])
          = Inr (houses, angles)"
    and b: "fst (sweHousesLon sample_const (sample_engine equal_cusps) 2451545 40 (- 8) ''Placidus'' 0 [])
          = Inr (hlons, alons)"
    and c: "length hlons = 12" "map house_lon houses = hlons" "map angle_lon angles = alons"
    by blast
  show ?thesis
    unfolding a b using sample_housesys h3 c by simp
qed

subsection \<open>Eclipse records\<close>

text \<open>
  C9. When the engine's search returns a timing array of at least eight elements,
  \<open>solarEclipseGlobal\<close> and \<open>lunarEclipseGlobal\<close> each return the record of
  seven instants read from positions 0, 2, 3, 4, 5, 6 and 7 of that array, unchanged;
  position 1 and the return flag are not read. Each makes exactly one engine call.
\<close>

theorem eclipse_records:
  "(sol_eclipse_when_glob e tr jd backward = Inr (retflag, tret) \<and> 8 \<le> length tret \<longrightarrow>
      solarEclipseGlobal e jd backward tr =
        (Inr \<lparr>sol_maximum = tret ! 0, sol_begin = tret ! 2, sol_end = tret ! 3,
              sol_totality_begin = tret ! 4, sol_totality_end = tret ! 5,
              sol_center_line_begin = tret ! 6, sol_center_line_end = tret ! 7\<rparr>,
         tr @ [Sol_eclipse_when_glob jd backward]))
   \<and> (lun_eclipse_when e tr jd backward = Inr (retflag', tret') \<and> 8 \<le> length tret' \<longrightarrow>
      lunarEclipseGlobal e jd backward tr =
        (Inr \<lparr>lun_maximum = tret' ! 0, lun_partial_begin = tret' ! 2,
              lun_partial_end = tret' ! 3, lun_totality_begin = tret' ! 4,
              lun_totality_end = tret' ! 5, lun_penumbral_begin = tret' ! 6,
              lun_penumbral_end = tret' ! 7\<rparr>,
         tr @ [Lun_eclipse_when jd backward]))"
  by (simp add: solarEclipseGlobal_def lunarEclipseGlobal_def Let_def)

theorem eclipse_records_witness:
  "sol_eclipse_when_glob (sample_engine equal_cusps) [] 2451545 True
       = Inr (4, [10, 11, 12, 13, 14, 15, 16, 17, 18, 19])
   \<and> lun_eclipse_when (sample_engine equal_cusps) [] 2451545 True
       = Inr (4, [20, 21, 22, 23, 24, 25, 26, 27, 28, 29])
   \<and> solarEclipseGlobal (sample_engine equal_cusps) 2451545 True [] =
        (Inr \<lparr>sol_maximum = 10, sol_begin = 12, sol_end = 13,
              sol_totality_begin = 14, sol_totality_end = 15,
              sol_center_line_begin = 16, sol_center_line_end = 17\<rparr>,
         [Sol_eclipse_when_glob 2451545 True])
   \<and> lunarEclipseGlobal (sample_engine equal_cusps) 2451545 True [] =
        (Inr \<lparr>lun_maximum = 20, lun_partial_begin = 22, lun_partial_end = 23,
              lun_totality_begin = 24, lun_totality_end = 25,
              lun_penumbral_begin = 26, lun_penumbral_end = 27\<rparr>,
         [Lun_eclipse_when 2451545 True])"
proof -
  have s: "sol_eclipse_when_glob (sample_engine equal_cusps) [] 2451545 True
       = Inr (4, [10, 11, 12, 13, 14, 15, 16, 17, 18, 19])"
    by (simp add: sample_engine_def)
  have l: "lun_eclipse_when (sample_engine equal_cusps) [] 2451545 True
       = Inr (4, [20, 21, 22, 23, 24, 25, 26, 27, 28, 29])"
    by (simp add: sample_engine_def)
  show ?thesis
    using eclipse_records [of "sample_engine equal_cusps" "[]" 2451545 True
        4 "[10, 11, 12, 13, 14, 15, 16, 17, 18, 19]" 4 "[20, 21, 22, 23, 24, 25, 26, 27, 28, 29]"]
      s l by simp
qed

subsection \<open>Identifiers in the returned records\<close>

text \<open>
  C10. Whenever \<open>sweObject\<close> returns a record, its \<open>id\<close> is the identifier
  the caller passed; whenever \<open>sweFixedStar\<close> returns a record, its \<open>id\<close> is
  the star argument the caller passed, not the name the engine resolved.
\<close>

theorem record_id_is_caller_input:
  "(fst (sweObject c e obj jd flags tr) = Inr r \<longrightarrow> obj_id r = obj)
   \<and> (fst (sweFixedStar e star jd flags tr) = Inr s \<longrightarrow> star_id s = star)"
  by (auto simp: sweObject_def sweFixedStar_def Let_def
        split: option.splits sum.splits prod.splits if_splits)

theorem record_id_is_caller_input_witness:
  "fst (sweObject sample_const (sample_engine equal_cusps) ''Moon'' 2451545 258 []) =
       Inr \<lparr>obj_id = ''Moon'', obj_lon = 281, obj_lat = 1,
            obj_lonspeed = 3, obj_latspeed = 4, obj_flg = 258\<rparr>
   \<and> fixstar2_ut (sample_engine equal_cusps) [] ''Aldebaran'' 2451545 0
       = Inr ([100, 5, 1, 0, 0, 0], ''Aldebaran,alTau'', 0)
   \<and> fst (sweFixedStar (sample_engine equal_cusps) ''Aldebaran'' 2451545 258 []) =
       Inr \<lparr>star_id = ''Aldebaran'', star_mag = 87 / 100, star_lon = 100, star_lat = 5\<rparr>
   \<and> obj_id (projr (fst (sweObject sample_const (sample_engine equal_cusps) ''Moon'' 2451545 258 [])))
       = ''Moon''
   \<and> star_id (projr (fst (sweFixedStar (sample_engine equal_cusps) ''Aldebaran'' 2451545 258 [])))
       = ''Aldebaran''"
proof -
  have o: "fst (sweObject sample_const (sample_engine equal_cusps) ''Moon'' 2451545 258 []) =
       Inr \<lparr>obj_id = ''Moon'', obj_lon = 281, obj_lat = 1,
            obj_lonspeed = 3, obj_latspeed = 4, obj_flg = 258\<rparr>"
    by (simp add: sweObject_def sample_object_moon Let_def sample_engine_def)
  have f: "fixstar2_ut (sample_engine equal_cusps) [] ''Aldebaran'' 2451545 0
       = Inr ([100, 5, 1, 0, 0, 0], ''Aldebaran,alTau'', 0)"
    by (simp add: sample_engine_def)
  have s: "fst (sweFixedStar (sample_engine equal_cusps) ''Aldebaran'' 2451545 258 []) =
       Inr \<lparr>star_id = ''Aldebaran'', star_mag = 87 / 100, star_lon = 100, star_lat = 5\<rparr>"
    by (simp add: sweFixedStar_def Let_def sample_engine_def)
  show ?thesis
    using record_id_is_caller_input [of sample_const "sample_engine equal_cusps" "''Moon''"
        2451545 258 "[]" _ "''Aldebaran''" _]
      o f s by simp
qed

end
